theory Spec2Isabelle
  imports Complex_Main "HOL-Library.Char_ord" "HOL-Library.List_Lexorder"
    "HOL-Library.Product_Lexorder"
begin

section \<open>Values, errors and tables\<close>

text \<open>
  A float64 is modelled as an exact real number, the two infinities or NaN. Binary
  rounding, overflow and the sign of zero are not modelled. NaN is the missing-value
  marker of pandas (\<^verbatim>\<open>np.nan\<close>).
\<close>

datatype fl = Fin real | PInf | NInf | NaN

text \<open>
  A cell of a table holds text or a number. \<^verbatim>\<open>read_csv\<close> yields numeric columns
  and text columns whose missing entries are NaN.
\<close>

datatype cell = Str string | Num fl

datatype py_error = KeyError | ValueError | TypeError

definition isna :: "cell \<Rightarrow> bool" where
  "isna c = (c = Num NaN)"

text \<open>
  A wide table (DataFrame): the column labels and the rows, each row holding one cell
  per column. A cell that a row does not have reads as missing.
\<close>

record frame =
  columns :: "string list"
  rows :: "cell list list"

definition and_then :: "'e + 'a \<Rightarrow> ('a \<Rightarrow> 'e + 'b) \<Rightarrow> 'e + 'b" where
  "and_then m f = (case m of Inl e \<Rightarrow> Inl e | Inr x \<Rightarrow> f x)"

fun traverse :: "('a \<Rightarrow> 'e + 'b) \<Rightarrow> 'a list \<Rightarrow> 'e + 'b list" where
  "traverse f [] = Inr []"
| "traverse f (x # xs) =
     (case f x of Inl e \<Rightarrow> Inl e
      | Inr y \<Rightarrow> (case traverse f xs of Inl e \<Rightarrow> Inl e | Inr ys \<Rightarrow> Inr (y # ys)))"

fun col_index :: "string list \<Rightarrow> string \<Rightarrow> nat option" where
  "col_index [] c = None"
| "col_index (x # xs) c =
     (if x = c then Some 0 else map_option Suc (col_index xs c))"

definition cell_at :: "cell list \<Rightarrow> nat \<Rightarrow> cell" where
  "cell_at r i = (if i < length r then r ! i else Num NaN)"

text \<open>\<^verbatim>\<open>df[labels] = df[labels].apply(f)\<close>: \<open>f\<close> on the cells of the chosen columns.\<close>

definition map_cols :: "(string \<Rightarrow> bool) \<Rightarrow> (cell \<Rightarrow> cell) \<Rightarrow> frame \<Rightarrow> frame" where
  "map_cols P f df =
     df\<lparr>rows := map (\<lambda>r. map (\<lambda>(c, x). if P c then f x else x) (zip (columns df) r))
                     (rows df)\<rparr>"

text \<open>\<^verbatim>\<open>df.drop(columns=labels)\<close>, for labels that are present.\<close>

definition drop_columns :: "(string \<Rightarrow> bool) \<Rightarrow> frame \<Rightarrow> frame" where
  "drop_columns P df =
     \<lparr>columns = filter (\<lambda>c. \<not> P c) (columns df),
      rows = map (\<lambda>r. map snd (filter (\<lambda>(c, x). \<not> P c) (zip (columns df) r))) (rows df)\<rparr>"

text \<open>\<^verbatim>\<open>drop_duplicates()\<close> keeps the first of equal rows; NaN equals NaN there.\<close>

fun drop_duplicates_from :: "'a list \<Rightarrow> 'a list \<Rightarrow> 'a list" where
  "drop_duplicates_from seen [] = []"
| "drop_duplicates_from seen (x # xs) =
     (if x \<in> set seen then drop_duplicates_from seen xs
      else x # drop_duplicates_from (x # seen) xs)"

definition drop_duplicates :: "'a list \<Rightarrow> 'a list" where
  "drop_duplicates xs = drop_duplicates_from [] xs"

section \<open>Strings of Python\<close>

text \<open>
  Strings are byte strings; \<^verbatim>\<open>isdigit\<close>, \<^verbatim>\<open>strip\<close>, \<^verbatim>\<open>str\<close> and \<^verbatim>\<open>int\<close>
  are modelled on ASCII text.
\<close>

definition isdigit :: "string \<Rightarrow> bool" where
  "isdigit s = (s \<noteq> [] \<and> list_all (\<lambda>c. c \<in> set ''0123456789'') s)"

definition isspace_char :: "char \<Rightarrow> bool" where
  "isspace_char c =
     (c \<in> set [CHR '' '', CHR 0x09, CHR 0x0A, CHR 0x0B, CHR 0x0C, CHR 0x0D,
               CHR 0x1C, CHR 0x1D, CHR 0x1E, CHR 0x1F])"

definition strip :: "string \<Rightarrow> string" where
  "strip s = rev (dropWhile isspace_char (rev (dropWhile isspace_char s)))"

definition digit_char :: "nat \<Rightarrow> char" where
  "digit_char d = ''0123456789'' ! d"

function str_nat :: "nat \<Rightarrow> string" where
  "str_nat n = (if n < 10 then [digit_char n] else str_nat (n div 10) @ [digit_char (n mod 10)])"
  by pat_completeness auto
termination
  by (relation "measure id") auto

definition digit_val :: "char \<Rightarrow> int" where
  "digit_val c = int (of_char c) - 48"

definition int_of_str :: "string \<Rightarrow> int" where
  "int_of_str s = foldl (\<lambda>n c. 10 * n + digit_val c) 0 s"

section \<open>Cleaning\<close>

definition sentinels :: "string list" where
  "sentinels = [''..'', '''', '' '']"

definition replace_sentinel :: "cell \<Rightarrow> cell" where
  "replace_sentinel c = (case c of Str s \<Rightarrow> if s \<in> set sentinels then Num NaN else Str s
                                 | Num x \<Rightarrow> Num x)"

text \<open>\<^verbatim>\<open>main_df.replace(["..", "", " "], np.nan, inplace=True)\<close>\<close>

definition replace_sentinels :: "frame \<Rightarrow> frame" where
  "replace_sentinels df = df\<lparr>rows := map (map replace_sentinel) (rows df)\<rparr>"

text \<open>
  \<^verbatim>\<open>astype(float)\<close> on one cell. The argument \<open>pf\<close> is Python's \<^verbatim>\<open>float\<close> on
  text: the number, or \<open>None\<close> where it raises ValueError.
\<close>

definition to_float :: "(string \<Rightarrow> fl option) \<Rightarrow> cell \<Rightarrow> py_error + cell" where
  "to_float pf c = (case c of Num x \<Rightarrow> Inr (Num x)
                     | Str s \<Rightarrow> (case pf s of None \<Rightarrow> Inl ValueError | Some x \<Rightarrow> Inr (Num x)))"

definition astype_float ::
  "(string \<Rightarrow> fl option) \<Rightarrow> string list \<Rightarrow> frame \<Rightarrow> py_error + frame" where
  "astype_float pf cols df =
     and_then
       (traverse (\<lambda>r. traverse (\<lambda>(c, x). if c \<in> set cols then to_float pf x else Inr x)
                                (zip (columns df) r)) (rows df))
       (\<lambda>rs. Inr (df\<lparr>rows := rs\<rparr>))"

definition strip_cell :: "cell \<Rightarrow> cell" where
  "strip_cell c = (case c of Str s \<Rightarrow> Str (strip s) | Num x \<Rightarrow> Num x)"

definition country_map :: "(string \<times> string) list" where
  "country_map = [(''Kenia'', ''Kenya''),
                  (''Cote d'' @ [CHR 0x27] @ ''Ivoire'',
                   ''C'' @ [CHR 0xC3, CHR 0xB4] @ ''te d'' @ [CHR 0x27] @ ''Ivoire'')]"

definition replace_by :: "(string \<times> string) list \<Rightarrow> cell \<Rightarrow> cell" where
  "replace_by m c = (case c of Str s \<Rightarrow> (case map_of m s of Some t \<Rightarrow> Str t | None \<Rightarrow> Str s)
                      | Num x \<Rightarrow> Num x)"

definition valid_years :: "string list" where
  "valid_years = map str_nat [1960..<2024]"

text \<open>\<^verbatim>\<open>main_df.columns[main_df.isnull().all()]\<close>: the labels of the columns without a value.\<close>

definition empty_columns :: "frame \<Rightarrow> string list" where
  "empty_columns df =
     map snd (filter (\<lambda>(i, c). list_all (\<lambda>r. isna (cell_at r i)) (rows df))
                     (enumerate 0 (columns df)))"

text \<open>
  \<^verbatim>\<open>clean_data(main_df, meta_df, pop_df)\<close>. Writing the three CSV files and the
  log lines are left out.
\<close>

definition clean_data ::
  "(string \<Rightarrow> fl option) \<Rightarrow> frame \<Rightarrow> frame \<Rightarrow> frame \<Rightarrow> py_error + (frame \<times> frame \<times> frame)" where
  "clean_data pf main_df meta_df pop_df =
     (let df1 = replace_sentinels main_df;
          year_cols = filter isdigit (columns df1)
      in and_then (astype_float pf year_cols df1) (\<lambda>df2.
         let df3 = df2\<lparr>rows := drop_duplicates (rows df2)\<rparr>;
             df4 = df3\<lparr>rows := map (map strip_cell) (rows df3)\<rparr>
         in if ''country_name'' \<notin> set (columns df4) then Inl KeyError
            else
              let df5 = map_cols (\<lambda>c. c = ''country_name'') (replace_by country_map) df4;
                  invalid = filter (\<lambda>c. c \<notin> set valid_years) year_cols;
                  df6 = drop_columns (\<lambda>c. c \<in> set invalid) df5;
                  empty = empty_columns df6;
                  df7 = drop_columns (\<lambda>c. c \<in> set empty) df6
              in Inr (df7, meta_df, pop_df)))"

section \<open>Arithmetic of float64\<close>

fun fdiv :: "fl \<Rightarrow> fl \<Rightarrow> fl" where
  "fdiv NaN _ = NaN"
| "fdiv _ NaN = NaN"
| "fdiv (Fin a) (Fin b) =
     (if b \<noteq> 0 then Fin (a / b) else if a = 0 then NaN else if 0 < a then PInf else NInf)"
| "fdiv (Fin a) PInf = Fin 0"
| "fdiv (Fin a) NInf = Fin 0"
| "fdiv PInf (Fin b) = (if 0 \<le> b then PInf else NInf)"
| "fdiv NInf (Fin b) = (if 0 \<le> b then NInf else PInf)"
| "fdiv PInf PInf = NaN"
| "fdiv PInf NInf = NaN"
| "fdiv NInf PInf = NaN"
| "fdiv NInf NInf = NaN"

fun fsub :: "fl \<Rightarrow> fl \<Rightarrow> fl" where
  "fsub NaN _ = NaN"
| "fsub _ NaN = NaN"
| "fsub (Fin a) (Fin b) = Fin (a - b)"
| "fsub (Fin a) PInf = NInf"
| "fsub (Fin a) NInf = PInf"
| "fsub PInf (Fin b) = PInf"
| "fsub NInf (Fin b) = NInf"
| "fsub PInf PInf = NaN"
| "fsub PInf NInf = PInf"
| "fsub NInf PInf = NInf"
| "fsub NInf NInf = NaN"

text \<open>Rounding to the nearest integer, a tie to the even one (\<^verbatim>\<open>np.rint\<close>).\<close>

definition rint :: "real \<Rightarrow> int" where
  "rint x = (let f = \<lfloor>x\<rfloor>; d = x - of_int f
             in if d < 1 / 2 then f else if 1 / 2 < d then f + 1
                else if even f then f else f + 1)"

text \<open>\<^verbatim>\<open>round(n)\<close> of a float64 column: scale, round, scale back.\<close>

definition round_fl :: "nat \<Rightarrow> fl \<Rightarrow> fl" where
  "round_fl n x = (case x of Fin r \<Rightarrow> Fin (of_int (rint (r * 10 ^ n)) / 10 ^ n) | _ \<Rightarrow> x)"

definition round_cell :: "nat \<Rightarrow> cell \<Rightarrow> cell" where
  "round_cell n c = (case c of Num x \<Rightarrow> Num (round_fl n x) | Str s \<Rightarrow> Str s)"

section \<open>Long tables\<close>

record gdp_row =
  country_name :: cell
  country_code :: cell
  region :: cell
  incomegroup :: cell
  year :: int
  gdp :: cell

record pop_row =
  pop_name :: cell
  pop_code :: cell
  pop_year :: int
  pop_value :: cell

record merged_row = gdp_row +
  population :: cell

record ratio_row = merged_row +
  gdp_per_capita :: fl

record change_row = ratio_row +
  gdp_pc_change :: fl

record out_row = change_row +
  continent :: cell

definition lookup :: "frame \<Rightarrow> cell list \<Rightarrow> string \<Rightarrow> cell" where
  "lookup df r c = (case col_index (columns df) c of Some i \<Rightarrow> cell_at r i | None \<Rightarrow> Num NaN)"

definition id_vars :: "string list" where
  "id_vars = [''country_name'', ''country_code'', ''region'', ''incomegroup'']"

definition value_vars_of :: "frame \<Rightarrow> string list" where
  "value_vars_of df = filter isdigit (columns df)"

text \<open>
  \<^verbatim>\<open>pd.melt\<close> of the main table followed by \<^verbatim>\<open>astype(int)\<close> on the year labels:
  one row per year column and table row, the year columns in their order. A label that
  the table does not have raises KeyError.
\<close>

definition melt_gdp :: "frame \<Rightarrow> string list \<Rightarrow> py_error + gdp_row list" where
  "melt_gdp df value_vars =
     (if \<not> list_all (\<lambda>c. c \<in> set (columns df)) (id_vars @ value_vars) then Inl KeyError
      else Inr (concat (map (\<lambda>v. map (\<lambda>r.
             \<lparr>country_name = lookup df r ''country_name'',
              country_code = lookup df r ''country_code'',
              region = lookup df r ''region'',
              incomegroup = lookup df r ''incomegroup'',
              year = int_of_str v,
              gdp = lookup df r v\<rparr>) (rows df)) value_vars)))"

definition melt_pop :: "frame \<Rightarrow> string list \<Rightarrow> py_error + pop_row list" where
  "melt_pop df value_vars =
     (if \<not> list_all (\<lambda>c. c \<in> set (columns df))
             ([''country_name'', ''country_code''] @ value_vars) then Inl KeyError
      else Inr (concat (map (\<lambda>v. map (\<lambda>r.
             \<lparr>pop_name = lookup df r ''country_name'',
              pop_code = lookup df r ''country_code'',
              pop_year = int_of_str v,
              pop_value = lookup df r v\<rparr>) (rows df)) value_vars)))"

text \<open>
  \<^verbatim>\<open>gdp_long.merge(pop_long, on=['country_code', 'country_name', 'year'], how='left')\<close>:
  each left row with each right row of the same key, in the order of the left table;
  a left row without a match once, with a missing population. Missing keys match
  missing keys.
\<close>

definition matches :: "gdp_row \<Rightarrow> pop_row \<Rightarrow> bool" where
  "matches g p = (country_code g = pop_code p \<and> country_name g = pop_name p
                  \<and> year g = pop_year p)"

definition merge_row :: "gdp_row \<Rightarrow> pop_row list \<Rightarrow> merged_row list" where
  "merge_row g ps =
     (case filter (matches g) ps of
        [] \<Rightarrow> [gdp_row.extend g (merged_row.fields (Num NaN))]
      | ms \<Rightarrow> map (\<lambda>p. gdp_row.extend g (merged_row.fields (pop_value p))) ms)"

definition merge_left :: "gdp_row list \<Rightarrow> pop_row list \<Rightarrow> merged_row list" where
  "merge_left gs ps = concat (map (\<lambda>g. merge_row g ps) gs)"

text \<open>
  \<^verbatim>\<open>merged['gdp'] / merged['population']\<close>. Division of numbers follows IEEE 754.
  Where a column holds text, pandas divides the pairs without a missing side only, and
  dividing by text or text by anything raises TypeError.
\<close>

definition cell_div :: "cell \<Rightarrow> cell \<Rightarrow> py_error + fl" where
  "cell_div a b =
     (if isna a \<or> isna b then Inr NaN
      else (case (a, b) of (Num x, Num y) \<Rightarrow> Inr (fdiv x y) | _ \<Rightarrow> Inl TypeError))"

definition add_ratio :: "merged_row list \<Rightarrow> py_error + ratio_row list" where
  "add_ratio ms =
     traverse (\<lambda>m. and_then (cell_div (gdp m) (population m))
                      (\<lambda>q. Inr (merged_row.extend m (ratio_row.fields q)))) ms"

text \<open>
  The order of \<^verbatim>\<open>sort_values\<close> on a column: numbers, then text, then missing
  values; the sort is stable.
\<close>

definition cell_key :: "cell \<Rightarrow> nat \<times> string \<times> nat \<times> real" where
  "cell_key c = (case c of
       Num NInf \<Rightarrow> (0, [], 0, 0)
     | Num (Fin r) \<Rightarrow> (0, [], 1, r)
     | Num PInf \<Rightarrow> (0, [], 2, 0)
     | Str s \<Rightarrow> (1, s, 0, 0)
     | Num NaN \<Rightarrow> (2, [], 0, 0))"

definition sort_code_year :: "('a ratio_row_scheme) list \<Rightarrow> ('a ratio_row_scheme) list" where
  "sort_code_year rs = sort_key (\<lambda>r. (cell_key (country_code r), year r)) rs"

definition sort_name_year :: "('a ratio_row_scheme) list \<Rightarrow> ('a ratio_row_scheme) list" where
  "sort_name_year rs = sort_key (\<lambda>r. (cell_key (country_name r), year r)) rs"

text \<open>
  \<^verbatim>\<open>groupby('country_code')['gdp_per_capita'].pct_change()\<close>. pandas computes it in
  three passes over the rows in table order: the forward fill inside each group, the
  shift by one inside each group, and \<open>filled / shifted - 1\<close>. Rows with a missing
  key belong to no group and get NaN. Without arguments, pandas up to 2.x fills
  forward (\<open>Ffill\<close>); pandas 3 does not (\<open>NoFill\<close>).
\<close>

datatype fill_method = Ffill | NoFill

fun group_ffill :: "(cell \<Rightarrow> fl option) \<Rightarrow> (cell \<times> fl) list \<Rightarrow> fl list" where
  "group_ffill prev [] = []"
| "group_ffill prev ((k, v) # kvs) =
     (if isna k then NaN # group_ffill prev kvs
      else let f = (if v = NaN then (case prev k of Some p \<Rightarrow> p | None \<Rightarrow> NaN) else v)
           in f # group_ffill (prev(k \<mapsto> f)) kvs)"

fun group_shift :: "(cell \<Rightarrow> fl option) \<Rightarrow> (cell \<times> fl) list \<Rightarrow> fl list" where
  "group_shift prev [] = []"
| "group_shift prev ((k, v) # kvs) =
     (if isna k then NaN # group_shift prev kvs
      else (case prev k of Some p \<Rightarrow> p | None \<Rightarrow> NaN) # group_shift (prev(k \<mapsto> v)) kvs)"

definition pct_change :: "fill_method \<Rightarrow> cell list \<Rightarrow> fl list \<Rightarrow> fl list" where
  "pct_change fm keys vals =
     (let filled = (case fm of Ffill \<Rightarrow> group_ffill Map.empty (zip keys vals)
                             | NoFill \<Rightarrow> map (\<lambda>(k, v). if isna k then NaN else v) (zip keys vals));
          shifted = group_shift Map.empty (zip keys filled)
      in map (\<lambda>(f, s). fsub (fdiv f s) (Fin 1)) (zip filled shifted))"

definition add_change :: "fill_method \<Rightarrow> ratio_row list \<Rightarrow> change_row list" where
  "add_change fm rs =
     map (\<lambda>(r, c). ratio_row.extend r (change_row.fields c))
         (zip rs (pct_change fm (map country_code rs) (map gdp_per_capita rs)))"

definition continent_map :: "(string \<times> string) list" where
  "continent_map =
     [(''Latin America & Caribbean'', ''Americas''), (''South Asia'', ''Asia''),
      (''Sub-Saharan Africa'', ''Africa''), (''Europe & Central Asia'', ''Europe''),
      (''Middle East & North Africa'', ''Asia''), (''East Asia & Pacific'', ''Asia''),
      (''North America'', ''Americas'')]"

text \<open>\<^verbatim>\<open>Series.map(continent_map)\<close>: a value that is no key of the table gives NaN.\<close>

definition map_continent :: "cell \<Rightarrow> cell" where
  "map_continent c = (case c of Str s \<Rightarrow> (case map_of continent_map s of Some t \<Rightarrow> Str t
                                           | None \<Rightarrow> Num NaN)
                        | Num x \<Rightarrow> Num NaN)"

definition add_continent :: "change_row list \<Rightarrow> out_row list" where
  "add_continent rs =
     map (\<lambda>r. change_row.extend r (out_row.fields (map_continent (region r)))) rs"

definition between :: "int \<Rightarrow> int \<Rightarrow> int \<Rightarrow> bool" where
  "between lo hi y = (lo \<le> y \<and> y \<le> hi)"

definition round_row :: "out_row \<Rightarrow> out_row" where
  "round_row r = r\<lparr>gdp := round_cell 2 (gdp r),
                   gdp_per_capita := round_fl 2 (gdp_per_capita r),
                   gdp_pc_change := round_fl 4 (gdp_pc_change r)\<rparr>"

section \<open>The transform stage\<close>

text \<open>Lines 113 to 115: the long GDP table.\<close>

definition gdp_long :: "frame \<Rightarrow> py_error + gdp_row list" where
  "gdp_long main_clean = melt_gdp main_clean (value_vars_of main_clean)"

text \<open>Lines 118 and 119: the long population table, on the year columns of the main table.\<close>

definition pop_long :: "frame \<Rightarrow> frame \<Rightarrow> py_error + pop_row list" where
  "pop_long main_clean pop_clean = melt_pop pop_clean (value_vars_of main_clean)"

text \<open>Line 120: the joined table.\<close>

definition merged_table :: "frame \<Rightarrow> frame \<Rightarrow> py_error + merged_row list" where
  "merged_table main_clean pop_clean =
     and_then (gdp_long main_clean) (\<lambda>g.
     and_then (pop_long main_clean pop_clean) (\<lambda>p. Inr (merge_left g p)))"

text \<open>Lines 123 to 125: the ratio, the sort by code and year, and the change.\<close>

definition change_table :: "fill_method \<Rightarrow> frame \<Rightarrow> frame \<Rightarrow> py_error + change_row list" where
  "change_table fm main_clean pop_clean =
     and_then (merged_table main_clean pop_clean) (\<lambda>m.
     and_then (add_ratio m) (\<lambda>r. Inr (add_change fm (sort_code_year r))))"

text \<open>
  \<^verbatim>\<open>transform_data(main_clean, meta_clean, pop_clean)\<close>. The printed mean of 2020 and
  the written CSV file are left out; the metadata table is not read.
\<close>

definition transform_data ::
  "fill_method \<Rightarrow> frame \<Rightarrow> frame \<Rightarrow> frame \<Rightarrow> py_error + out_row list" where
  "transform_data fm main_clean meta_clean pop_clean =
     and_then (change_table fm main_clean pop_clean) (\<lambda>c.
       let merged = sort_name_year (add_continent c);
           final = filter (\<lambda>r. between 2010 2020 (year r)) merged
       in Inr (map round_row final))"

section \<open>The load stage\<close>

text \<open>
  Lines 202 and 203: the rows of the countries table, in the column order
  code, name, region, income level.
\<close>

definition countries_df :: "out_row list \<Rightarrow> (cell \<times> cell \<times> cell \<times> cell) list" where
  "countries_df final_df =
     drop_duplicates
       (map (\<lambda>r. (country_code r, country_name r, region r, incomegroup r)) final_df)"

section \<open>Example tables\<close>

definition main_ex :: frame where
  "main_ex = \<lparr>columns = [''country_name'', ''country_code'', ''region'', ''incomegroup'',
                          ''2019'', ''2020''],
             rows = [[Str ''A'', Str ''AAA'', Str ''South Asia'', Str ''Low income'',
                      Num (Fin 100), Num (Fin 110)]]\<rparr>"

definition pop_ex :: frame where
  "pop_ex = \<lparr>columns = [''country_name'', ''country_code'', ''2019'', ''2020''],
            rows = [[Str ''A'', Str ''AAA'', Num (Fin 10), Num (Fin 11)]]\<rparr>"

definition meta_ex :: frame where
  "meta_ex = \<lparr>columns = [''country_code'', ''region''],
             rows = [[Str ''AAA'', Str ''South Asia'']]\<rparr>"

text \<open>A parser for the examples: Python's \<^verbatim>\<open>float\<close> on ASCII digit strings.\<close>

definition float_digits :: "string \<Rightarrow> fl option" where
  "float_digits s = (if isdigit s then Some (Fin (of_int (int_of_str s))) else None)"

text \<open>The population table with the row of the entity twice.\<close>

definition pop_dup :: frame where
  "pop_dup = \<lparr>columns = [''country_name'', ''country_code'', ''2019'', ''2020''],
             rows = [[Str ''A'', Str ''AAA'', Num (Fin 10), Num (Fin 11)],
                     [Str ''A'', Str ''AAA'', Num (Fin 10), Num (Fin 11)]]\<rparr>"

text \<open>The population table with the placeholder of the data source in 2019.\<close>

definition pop_dots :: frame where
  "pop_dots = \<lparr>columns = [''country_name'', ''country_code'', ''2019'', ''2020''],
              rows = [[Str ''A'', Str ''AAA'', Str ''..'', Str ''11'']]\<rparr>"

text \<open>Population tables without the year 2020 and with the further year 2021.\<close>

definition pop_short :: frame where
  "pop_short = \<lparr>columns = [''country_name'', ''country_code'', ''2019''],
               rows = [[Str ''A'', Str ''AAA'', Num (Fin 10)]]\<rparr>"

definition pop_wide :: frame where
  "pop_wide = \<lparr>columns = [''country_name'', ''country_code'', ''2019'', ''2020'', ''2021''],
              rows = [[Str ''A'', Str ''AAA'', Num (Fin 10), Num (Fin 11), Num (Fin 12)]]\<rparr>"

text \<open>A main table with two rows of one entity code that differ in name and values.\<close>

definition main_two :: frame where
  "main_two = \<lparr>columns = [''country_name'', ''country_code'', ''region'', ''incomegroup'',
                           ''2019'', ''2020''],
              rows = [[Str ''A'', Str ''AAA'', Str ''South Asia'', Str ''Low income'',
                       Num (Fin 100), Num (Fin 110)],
                      [Str ''B'', Str ''AAA'', Str ''South Asia'', Str ''Low income'',
                       Num (Fin 200), Num (Fin 220)]]\<rparr>"

text \<open>Three years of one entity, the population of the middle year missing.\<close>

definition main_gap :: frame where
  "main_gap = \<lparr>columns = [''country_name'', ''country_code'', ''region'', ''incomegroup'',
                           ''2018'', ''2019'', ''2020''],
              rows = [[Str ''A'', Str ''AAA'', Str ''South Asia'', Str ''Low income'',
                       Num (Fin 100), Num (Fin 120), Num (Fin 90)]]\<rparr>"

definition pop_gap :: frame where
  "pop_gap = \<lparr>columns = [''country_name'', ''country_code'', ''2018'', ''2019'', ''2020''],
             rows = [[Str ''A'', Str ''AAA'', Num (Fin 10), Num NaN, Num (Fin 10)]]\<rparr>"

text \<open>A population table that spells the name of the entity differently.\<close>

definition pop_other :: frame where
  "pop_other = \<lparr>columns = [''country_name'', ''country_code'', ''2019'', ''2020''],
               rows = [[Str ''B'', Str ''AAA'', Num (Fin 10), Num (Fin 11)]]\<rparr>"

text \<open>Tables with the years around the window of the export.\<close>

definition main_edge :: frame where
  "main_edge = \<lparr>columns = [''country_name'', ''country_code'', ''region'', ''incomegroup'',
                            ''2009'', ''2010'', ''2020'', ''2021''],
               rows = [[Str ''A'', Str ''AAA'', Str ''Sub-Saharan Africa'', Str ''Low income'',
                        Num (Fin 10), Num (Fin 20), Num (Fin 30), Num (Fin 40)]]\<rparr>"

definition pop_edge :: frame where
  "pop_edge = \<lparr>columns = [''country_name'', ''country_code'', ''2009'', ''2010'', ''2020'', ''2021''],
              rows = [[Str ''A'', Str ''AAA'', Num (Fin 10), Num (Fin 10), Num (Fin 10),
                       Num (Fin 10)]]\<rparr>"

text \<open>The rows of the runs on the example tables.\<close>

definition gdp_ex :: "int \<Rightarrow> real \<Rightarrow> gdp_row" where
  "gdp_ex y v = \<lparr>country_name = Str ''A'', country_code = Str ''AAA'',
                 region = Str ''South Asia'', incomegroup = Str ''Low income'',
                 year = y, gdp = Num (Fin v)\<rparr>"

definition out_ex :: "int \<Rightarrow> real \<Rightarrow> real \<Rightarrow> fl \<Rightarrow> out_row" where
  "out_ex y v p c = \<lparr>country_name = Str ''A'', country_code = Str ''AAA'',
                     region = Str ''South Asia'', incomegroup = Str ''Low income'',
                     year = y, gdp = Num (Fin v), population = Num (Fin p),
                     gdp_per_capita = Fin (v / p), gdp_pc_change = c,
                     continent = Str ''Asia''\<rparr>"

definition gdp_edge :: "int \<Rightarrow> real \<Rightarrow> gdp_row" where
  "gdp_edge y v = \<lparr>country_name = Str ''A'', country_code = Str ''AAA'',
                   region = Str ''Sub-Saharan Africa'', incomegroup = Str ''Low income'',
                   year = y, gdp = Num (Fin v)\<rparr>"

definition out_edge :: "int \<Rightarrow> real \<Rightarrow> real \<Rightarrow> fl \<Rightarrow> out_row" where
  "out_edge y v p c = \<lparr>country_name = Str ''A'', country_code = Str ''AAA'',
                       region = Str ''Sub-Saharan Africa'', incomegroup = Str ''Low income'',
                       year = y, gdp = Num (Fin v), population = Num (Fin p),
                       gdp_per_capita = Fin (v / p), gdp_pc_change = c,
                       continent = Str ''Africa''\<rparr>"

section \<open>The stages in sequence\<close>

text \<open>Lines 277 and 278 of the main block: the cleaning, then the transform.\<close>

definition clean_then_transform ::
  "(string \<Rightarrow> fl option) \<Rightarrow> fill_method \<Rightarrow> frame \<Rightarrow> frame \<Rightarrow> frame \<Rightarrow> py_error + out_row list" where
  "clean_then_transform pf fm main_df meta_df pop_df =
     and_then (clean_data pf main_df meta_df pop_df)
       (\<lambda>(main_clean, meta_clean, pop_clean). transform_data fm main_clean meta_clean pop_clean)"

text \<open>The long GDP table that the transform builds from the cleaned main table.\<close>

definition clean_then_melt ::
  "(string \<Rightarrow> fl option) \<Rightarrow> frame \<Rightarrow> frame \<Rightarrow> frame \<Rightarrow> py_error + gdp_row list" where
  "clean_then_melt pf main_df meta_df pop_df =
     and_then (clean_data pf main_df meta_df pop_df)
       (\<lambda>(main_clean, meta_clean, pop_clean). gdp_long main_clean)"

section \<open>Projections used in the statements\<close>

definition ident :: "'a gdp_row_scheme \<Rightarrow> cell \<times> cell \<times> cell \<times> cell \<times> int" where
  "ident r = (country_name r, country_code r, region r, incomegroup r, year r)"

definition code_year :: "'a gdp_row_scheme \<Rightarrow> cell \<times> int" where
  "code_year r = (country_code r, year r)"

definition pop_key :: "pop_row \<Rightarrow> cell \<times> cell \<times> int" where
  "pop_key p = (pop_code p, pop_name p, pop_year p)"

text \<open>The fractional change of \<open>b\<close> relative to \<open>a\<close>.\<close>

definition frac_change :: "fl \<Rightarrow> fl \<Rightarrow> fl" where
  "frac_change a b = fsub (fdiv b a) (Fin 1)"

text \<open>The entity codes of the rows of a wide table.\<close>

definition codes_of :: "frame \<Rightarrow> cell list" where
  "codes_of df = map (\<lambda>r. lookup df r ''country_code'') (rows df)"

definition entity_attrs :: "'a gdp_row_scheme \<Rightarrow> cell \<times> cell \<times> cell \<times> cell" where
  "entity_attrs r = (country_code r, country_name r, region r, incomegroup r)"

text \<open>Rows of the long population table and of the joined table.\<close>

definition pop_row_ex :: "string \<Rightarrow> int \<Rightarrow> real \<Rightarrow> pop_row" where
  "pop_row_ex n y v = \<lparr>pop_name = Str n, pop_code = Str ''AAA'', pop_year = y,
                        pop_value = Num (Fin v)\<rparr>"

definition merged_ex :: "gdp_row \<Rightarrow> cell \<Rightarrow> merged_row" where
  "merged_ex g p = gdp_row.extend g (merged_row.fields p)"

section \<open>Auxiliary facts\<close>

subsection \<open>Errors, records and the stages of the transform\<close>

lemmas row_defs = gdp_row.defs merged_row.defs ratio_row.defs change_row.defs out_row.defs pop_row.defs

lemma and_then_Inr_iff: "and_then m f = Inr y \<longleftrightarrow> (\<exists>x. m = Inr x \<and> f x = Inr y)"
  by (cases m) (simp_all add: and_then_def)

lemma and_then_simps: "and_then (Inr x) f = f x" "and_then (Inl e) f = Inl e"
  by (simp_all add: and_then_def)

lemma traverse_Inr: "traverse f xs = Inr ys \<Longrightarrow> list_all2 (\<lambda>x y. f x = Inr y) xs ys"
  by (induction xs arbitrary: ys) (auto split: sum.splits)

lemma ident_merged: "ident (gdp_row.extend g (merged_row.fields v)) = ident g"
  by (simp add: ident_def row_defs)

lemma ident_ratio: "ident (merged_row.extend m (ratio_row.fields q)) = ident m"
  by (simp add: ident_def row_defs)

lemma ident_change: "ident (ratio_row.extend m (change_row.fields q)) = ident m"
  by (simp add: ident_def row_defs)

lemma ident_out: "ident (change_row.extend m (out_row.fields q)) = ident m"
  by (simp add: ident_def row_defs)

lemma ident_round: "ident (round_row r) = ident r"
  by (simp add: ident_def round_row_def)

lemma merge_row_ident: "ident ` set (merge_row g ps) = {ident g}"
  by (cases "filter (matches g) ps") (auto simp: merge_row_def ident_merged)

lemma merge_left_ident: "ident ` set (merge_left gs ps) = ident ` set gs"
proof -
  have "ident ` set (merge_left gs ps) = (\<Union>g\<in>set gs. ident ` set (merge_row g ps))"
    by (auto simp: merge_left_def)
  also have "\<dots> = ident ` set gs"
    by (auto simp: merge_row_ident)
  finally show ?thesis .
qed

lemma add_ratio_ident:
  assumes "add_ratio ms = Inr rs"
  shows "map ident rs = map ident ms"
proof -
  have "list_all2 (\<lambda>m r. and_then (cell_div (gdp m) (population m))
          (\<lambda>q. Inr (merged_row.extend m (ratio_row.fields q))) = Inr r) ms rs"
    using assms unfolding add_ratio_def by (rule traverse_Inr)
  then have "list_all2 (\<lambda>m r. ident r = ident m) ms rs"
    by (rule list_all2_mono) (auto simp: and_then_Inr_iff ident_ratio)
  then show ?thesis
    by (induction rule: list_all2_induct) simp_all
qed

lemma length_group_ffill: "length (group_ffill prev kvs) = length kvs"
  by (induction kvs arbitrary: prev) (auto simp: Let_def)

lemma length_group_shift: "length (group_shift prev kvs) = length kvs"
  by (induction kvs arbitrary: prev) auto

lemma length_pct_change:
  "length keys = length vals \<Longrightarrow> length (pct_change fm keys vals) = length vals"
  by (cases fm) (simp_all add: pct_change_def Let_def length_group_ffill length_group_shift)

lemma length_add_change: "length (add_change fm rs) = length rs"
  by (simp add: add_change_def length_pct_change)

lemma add_change_ident: "map ident (add_change fm rs) = map ident rs"
proof -
  have len: "length (pct_change fm (map country_code rs) (map gdp_per_capita rs)) = length rs"
    by (simp add: length_pct_change)
  have "map ident (add_change fm rs)
        = map (\<lambda>(r, c). ident r) (zip rs (pct_change fm (map country_code rs) (map gdp_per_capita rs)))"
    by (simp add: add_change_def ident_change case_prod_unfold)
  also have "\<dots> = map ident (map fst (zip rs (pct_change fm (map country_code rs) (map gdp_per_capita rs))))"
    by (simp add: case_prod_unfold)
  also have "\<dots> = map ident rs"
    using len by simp
  finally show ?thesis .
qed

lemma change_table_ident:
  assumes "change_table fm main_clean pop_clean = Inr c" and "gdp_long main_clean = Inr g"
  shows "ident ` set c = ident ` set g"
proof -
  from assms obtain p m r where p: "pop_long main_clean pop_clean = Inr p"
    and m: "m = merge_left g p" and r: "add_ratio m = Inr r"
    and c: "c = add_change fm (sort_code_year r)"
    by (auto simp: change_table_def merged_table_def and_then_Inr_iff)
  have "ident ` set c = set (map ident c)"
    by simp
  also have "\<dots> = set (map ident (sort_code_year r))"
    unfolding c by (simp only: add_change_ident)
  also have "\<dots> = set (map ident r)"
    by (simp add: sort_code_year_def)
  also have "\<dots> = ident ` set m"
    by (simp add: add_ratio_ident [OF r])
  also have "\<dots> = ident ` set g"
    by (simp add: m merge_left_ident)
  finally show ?thesis .
qed

lemma add_continent_ident: "map ident (add_continent rs) = map ident rs"
  by (simp add: add_continent_def ident_out)

lemma add_continent_region:
  "r \<in> set (add_continent rs) \<Longrightarrow> continent r = map_continent (region r)"
  by (auto simp: add_continent_def row_defs)

lemma round_row_fields: "year (round_row r) = year r" "region (round_row r) = region r"
  "continent (round_row r) = continent r" "country_code (round_row r) = country_code r"
  by (simp_all add: round_row_def)

subsection \<open>Dropping columns\<close>

lemma cell_at_Cons_Suc: "cell_at (x # xs) (Suc i) = cell_at xs i"
  by (simp add: cell_at_def)

lemma cell_at_Nil: "cell_at [] i = Num NaN"
  by (simp add: cell_at_def)

lemma lookup_filter_cols:
  assumes "\<not> P c"
  shows "(case col_index (filter (\<lambda>c. \<not> P c) cs) c of
            Some i \<Rightarrow> cell_at (map snd (filter (\<lambda>(c, x). \<not> P c) (zip cs r))) i
          | None \<Rightarrow> Num NaN)
       = (case col_index cs c of Some i \<Rightarrow> cell_at r i | None \<Rightarrow> Num NaN)"
proof (induction cs arbitrary: r)
  case Nil
  show ?case by simp
next
  case (Cons a cs)
  show ?case
  proof (cases r)
    case Nil
    then show ?thesis by (auto simp: cell_at_Nil split: option.splits)
  next
    case (Cons x xs)
    show ?thesis
    proof (cases "a = c")
      case True
      with assms Cons show ?thesis by (simp add: cell_at_def)
    next
      case False
      with Cons Cons.IH [of xs] show ?thesis
        by (auto simp: cell_at_Cons_Suc split: option.splits)
    qed
  qed
qed

lemma lookup_drop_columns:
  "\<not> P c \<Longrightarrow>
   lookup (drop_columns P df) (map snd (filter (\<lambda>(c, x). \<not> P c) (zip (columns df) r))) c
   = lookup df r c"
  by (simp add: lookup_def drop_columns_def lookup_filter_cols)

lemma melt_pop_drop_columns:
  assumes "\<forall>c \<in> set ([''country_name'', ''country_code''] @ vv). \<not> P c"
  shows "melt_pop (drop_columns P df) vv = melt_pop df vv"
proof -
  have mem: "list_all (\<lambda>c. c \<in> set (columns (drop_columns P df))) ([''country_name'', ''country_code''] @ vv)
      = list_all (\<lambda>c. c \<in> set (columns df)) ([''country_name'', ''country_code''] @ vv)"
    using assms by (auto simp: drop_columns_def list_all_iff)
  have rws: "rows (drop_columns P df)
      = map (\<lambda>r. map snd (filter (\<lambda>(c, x). \<not> P c) (zip (columns df) r))) (rows df)"
    by (simp add: drop_columns_def)
  have lk: "\<And>r c. c \<in> set ([''country_name'', ''country_code''] @ vv) \<Longrightarrow>
      lookup (drop_columns P df) (map snd (filter (\<lambda>(c, x). \<not> P c) (zip (columns df) r))) c
      = lookup df r c"
    using assms by (intro lookup_drop_columns) blast
  have "concat (map (\<lambda>v. map (\<lambda>r.
             \<lparr>pop_name = lookup (drop_columns P df) r ''country_name'',
              pop_code = lookup (drop_columns P df) r ''country_code'',
              pop_year = int_of_str v,
              pop_value = lookup (drop_columns P df) r v\<rparr>) (rows (drop_columns P df))) vv)
     = concat (map (\<lambda>v. map (\<lambda>r.
             \<lparr>pop_name = lookup df r ''country_name'',
              pop_code = lookup df r ''country_code'',
              pop_year = int_of_str v,
              pop_value = lookup df r v\<rparr>) (rows df)) vv)"
    unfolding rws by (rule arg_cong [where f = concat]) (simp add: lk comp_def)
  then show ?thesis
    unfolding melt_pop_def mem by simp
qed

lemma not_isdigit_ids: "\<not> isdigit ''country_name''" "\<not> isdigit ''country_code''"
  by (simp_all add: isdigit_def)

lemma melt_gdp_cases: "melt_gdp df vv = Inl KeyError \<or> (\<exists>g. melt_gdp df vv = Inr g)"
  by (simp add: melt_gdp_def)

subsection \<open>The left join\<close>

lemma truncate_merged: "gdp_row.truncate (gdp_row.extend g (merged_row.fields v)) = g"
  by (simp add: row_defs)

lemma population_merged: "population (gdp_row.extend g (merged_row.fields v)) = v"
  by (simp add: row_defs)

lemma merge_row_truncate: "gdp_row.truncate ` set (merge_row g ps) = {g}"
  by (cases "filter (matches g) ps") (auto simp: merge_row_def truncate_merged)

lemma merge_row_nonempty: "merge_row g ps \<noteq> []"
  by (cases "filter (matches g) ps") (simp_all add: merge_row_def)

lemma filter_distinct_key:
  "distinct (map f xs) \<Longrightarrow> length (filter (\<lambda>x. f x = k) xs) \<le> 1"
  by (induction xs) (auto simp: filter_empty_conv image_iff)

lemma matches_pop_key:
  "matches g p \<longleftrightarrow> pop_key p = (country_code g, country_name g, year g)"
  by (auto simp: matches_def pop_key_def)

lemma merge_row_single:
  assumes "distinct (map pop_key ps)"
  shows "map gdp_row.truncate (merge_row g ps) = [g]"
proof -
  have "matches g = (\<lambda>p. pop_key p = (country_code g, country_name g, year g))"
    by (simp add: fun_eq_iff matches_pop_key)
  then have "length (filter (matches g) ps) \<le> 1"
    using filter_distinct_key [OF assms, of "(country_code g, country_name g, year g)"]
    by simp
  then show ?thesis
    by (cases "filter (matches g) ps") (simp_all add: merge_row_def truncate_merged)
qed

lemma merge_left_truncate_set: "gdp_row.truncate ` set (merge_left gs ps) = set gs"
proof -
  have "gdp_row.truncate ` set (merge_left gs ps)
        = (\<Union>g\<in>set gs. gdp_row.truncate ` set (merge_row g ps))"
    by (auto simp: merge_left_def)
  also have "\<dots> = set gs"
    by (auto simp: merge_row_truncate)
  finally show ?thesis .
qed

lemma merge_left_length: "length gs \<le> length (merge_left gs ps)"
proof (induction gs)
  case Nil
  show ?case by (simp add: merge_left_def)
next
  case (Cons g gs)
  have "1 \<le> length (merge_row g ps)"
    using merge_row_nonempty [of g ps] by (cases "merge_row g ps") simp_all
  with Cons show ?case by (simp add: merge_left_def)
qed

lemma merge_left_exact:
  "distinct (map pop_key ps) \<Longrightarrow> map gdp_row.truncate (merge_left gs ps) = gs"
  by (induction gs) (simp_all add: merge_left_def merge_row_single)

lemma merge_row_unmatched:
  assumes "r \<in> set (merge_row g ps)" and "\<forall>q \<in> set ps. \<not> matches g q"
  shows "population r = Num NaN"
proof -
  from assms(2) have "filter (matches g) ps = []"
    by (simp add: filter_empty_conv)
  with assms(1) show ?thesis
    by (simp add: merge_row_def population_merged)
qed

lemma merge_left_unmatched:
  assumes "r \<in> set (merge_left gs ps)" and "\<forall>q \<in> set ps. \<not> matches (gdp_row.truncate r) q"
  shows "population r = Num NaN"
proof -
  from assms(1) obtain g where g: "g \<in> set gs" "r \<in> set (merge_row g ps)"
    by (auto simp: merge_left_def)
  then have "gdp_row.truncate r = g"
    using merge_row_truncate [of g ps] by blast
  with assms(2) g show ?thesis
    by (auto intro: merge_row_unmatched)
qed

subsection \<open>Removing duplicates\<close>

lemma set_drop_duplicates_from: "set (drop_duplicates_from seen xs) = set xs - set seen"
  by (induction xs arbitrary: seen) auto

lemma distinct_drop_duplicates_from: "distinct (drop_duplicates_from seen xs)"
  by (induction xs arbitrary: seen) (auto simp: set_drop_duplicates_from)

subsection \<open>Runs on the example tables\<close>

lemmas clean_defs = clean_data_def replace_sentinels_def replace_sentinel_def sentinels_def
  astype_float_def to_float_def drop_duplicates_def strip_cell_def strip_def isspace_char_def
  map_cols_def replace_by_def country_map_def drop_columns_def empty_columns_def
  cell_at_def isna_def isdigit_def and_then_def enumerate_eq_zip

lemmas transform_defs = transform_data_def change_table_def merged_table_def gdp_long_def
  pop_long_def melt_gdp_def melt_pop_def value_vars_of_def id_vars_def lookup_def cell_at_def
  isdigit_def int_of_str_def digit_val_def merge_left_def merge_row_def matches_def
  add_ratio_def cell_div_def isna_def sort_code_year_def sort_name_year_def cell_key_def
  add_change_def pct_change_def add_continent_def map_continent_def continent_map_def
  between_def round_row_def round_fl_def round_cell_def rint_def and_then_def Let_def

lemma valid_years_eval: "valid_years = [''1960'', ''1961'', ''1962'', ''1963'', ''1964'', ''1965'', ''1966'', ''1967'', ''1968'', ''1969'', ''1970'', ''1971'', ''1972'', ''1973'', ''1974'', ''1975'', ''1976'', ''1977'', ''1978'', ''1979'', ''1980'', ''1981'', ''1982'', ''1983'', ''1984'', ''1985'', ''1986'', ''1987'', ''1988'', ''1989'', ''1990'', ''1991'', ''1992'', ''1993'', ''1994'', ''1995'', ''1996'', ''1997'', ''1998'', ''1999'', ''2000'', ''2001'', ''2002'', ''2003'', ''2004'', ''2005'', ''2006'', ''2007'', ''2008'', ''2009'', ''2010'', ''2011'', ''2012'', ''2013'', ''2014'', ''2015'', ''2016'', ''2017'', ''2018'', ''2019'', ''2020'', ''2021'', ''2022'', ''2023'']"
  by (simp add: valid_years_def upt_conv_Cons digit_char_def)

lemma clean_ex: "clean_data pf main_ex meta_ex pop_ex = Inr (main_ex, meta_ex, pop_ex)"
  unfolding clean_data_def valid_years_eval by code_simp

lemma clean_dots: "clean_data pf main_ex meta_ex pop_dots = Inr (main_ex, meta_ex, pop_dots)"
  unfolding clean_data_def valid_years_eval by code_simp

lemma clean_two: "clean_data pf main_two meta_ex pop_ex = Inr (main_two, meta_ex, pop_ex)"
  unfolding clean_data_def valid_years_eval by code_simp

lemma run_ex: "transform_data fm main_ex meta_ex pop_ex
    = Inr [out_ex 2019 100 10 NaN, out_ex 2020 110 11 (Fin 0)]"
  by (cases fm; simp add: transform_defs row_defs main_ex_def pop_ex_def out_ex_def)

lemma gdp_long_ex: "gdp_long main_ex = Inr [gdp_ex 2019 100, gdp_ex 2020 110]"
  by (simp add: transform_defs row_defs main_ex_def gdp_ex_def)

lemma run_edge: "transform_data fm main_edge meta_ex pop_edge
    = Inr [out_edge 2010 20 10 (Fin 1), out_edge 2020 30 10 (Fin (1 / 2))]"
  by (cases fm; simp add: transform_defs row_defs main_edge_def pop_edge_def out_edge_def)

lemma gdp_long_edge: "gdp_long main_edge
    = Inr [gdp_edge 2009 10, gdp_edge 2010 20, gdp_edge 2020 30, gdp_edge 2021 40]"
  by (simp add: transform_defs row_defs main_edge_def gdp_edge_def)

lemma run_dots: "transform_data fm main_ex meta_ex pop_dots = Inl TypeError"
  by (cases fm; simp add: transform_defs row_defs main_ex_def pop_dots_def)

lemma run_short: "transform_data fm main_ex meta_ex pop_short = Inl KeyError"
  by (cases fm; simp add: transform_defs row_defs main_ex_def pop_short_def)

lemma pct_example:
  "pct_change fm [Str ''AAA'', Str ''AAA'', Str ''AAA''] [Fin 10, Fin 12, Fin 9]
     = [NaN, Fin 0.2, Fin (- 0.25)]"
  by (cases fm; simp add: pct_change_def isna_def)

section \<open>The claims\<close>

subsection \<open>C2: the join\<close>

text \<open>
  C2, as stated, fails: the joined table can have more rows than the long GDP table.
  With the row of the entity twice in the population table, the two GDP rows of the
  example join to four rows.
\<close>

theorem left_join_row_count_counterexample:
  "map_sum id length (merged_table main_ex pop_dup) = Inr 4
   \<and> map_sum id length (gdp_long main_ex) = Inr 2"
  by (simp add: transform_defs row_defs main_ex_def pop_dup_def)

text \<open>
  C2, amended: the join keeps every row of the long GDP table, never fewer rows than
  that table has; a joined row without a population row of its key carries a missing
  population; and when no two rows of the long population table share the key
  (entity code, entity name, year), the joined table holds the GDP rows once each, in
  their order, so both tables have the same number of rows.
\<close>

theorem left_join_rows:
  assumes "gdp_long main_clean = Inr g" and "pop_long main_clean pop_clean = Inr p"
    and "merged_table main_clean pop_clean = Inr m"
  shows "gdp_row.truncate ` set m = set g \<and> length g \<le> length m
       \<and> (distinct (map pop_key p) \<longrightarrow> map gdp_row.truncate m = g)
       \<and> (\<forall>r \<in> set m. (\<forall>q \<in> set p. \<not> matches (gdp_row.truncate r) q)
             \<longrightarrow> population r = Num NaN)"
proof -
  from assms have m: "m = merge_left g p"
    by (simp add: merged_table_def and_then_simps)
  show ?thesis
    unfolding m
    using merge_left_truncate_set [of g p] merge_left_length [of g p]
      merge_left_exact [of p g] merge_left_unmatched [of _ g p]
    by blast
qed

theorem left_join_rows_witness:
  "gdp_long main_ex = Inr [gdp_ex 2019 100, gdp_ex 2020 110]
   \<and> pop_long main_ex pop_other = Inr [pop_row_ex ''B'' 2019 10, pop_row_ex ''B'' 2020 11]
   \<and> merged_table main_ex pop_other
       = Inr [merged_ex (gdp_ex 2019 100) (Num NaN), merged_ex (gdp_ex 2020 110) (Num NaN)]
   \<and> distinct (map pop_key [pop_row_ex ''B'' 2019 10, pop_row_ex ''B'' 2020 11])
   \<and> map gdp_row.truncate
         [merged_ex (gdp_ex 2019 100) (Num NaN), merged_ex (gdp_ex 2020 110) (Num NaN)]
       = [gdp_ex 2019 100, gdp_ex 2020 110]
   \<and> population (merged_ex (gdp_ex 2019 100) (Num NaN)) = Num NaN"
proof -
  have g: "gdp_long main_ex = Inr [gdp_ex 2019 100, gdp_ex 2020 110]"
    by (rule gdp_long_ex)
  have p: "pop_long main_ex pop_other = Inr [pop_row_ex ''B'' 2019 10, pop_row_ex ''B'' 2020 11]"
    by (simp add: transform_defs row_defs main_ex_def pop_other_def pop_row_ex_def)
  have m: "merged_table main_ex pop_other
       = Inr [merged_ex (gdp_ex 2019 100) (Num NaN), merged_ex (gdp_ex 2020 110) (Num NaN)]"
    by (simp add: transform_defs row_defs main_ex_def pop_other_def gdp_ex_def merged_ex_def)
  have d: "distinct (map pop_key [pop_row_ex ''B'' 2019 10, pop_row_ex ''B'' 2020 11])"
    by (simp add: pop_key_def pop_row_ex_def)
  have u: "\<forall>q \<in> set [pop_row_ex ''B'' 2019 10, pop_row_ex ''B'' 2020 11].
      \<not> matches (gdp_row.truncate (merged_ex (gdp_ex 2019 100) (Num NaN))) q"
    by (simp add: matches_def pop_row_ex_def merged_ex_def gdp_ex_def row_defs)
  from left_join_rows [OF g p m] d u show ?thesis
    using g p m by simp
qed

subsection \<open>C3: the scenario\<close>

text \<open>
  C3: for the main table with entity A (code AAA, region South Asia, an income group)
  and the years 2019 = 100 and 2020 = 110, and the population table with 2019 = 10 and
  2020 = 11, the export of the transform, also after the cleaning, has exactly two
  rows, both of AAA with ratio 10 and continent Asia; the change of the row of 2019
  is missing and that of the row of 2020 is 0.
\<close>

theorem scenario_export:
  "map_sum id (map (\<lambda>r. (country_code r, year r, gdp_per_capita r, gdp_pc_change r,
                          continent r)))
      (transform_data fm main_ex meta_ex pop_ex)
     = Inr [(Str ''AAA'', 2019, Fin 10, NaN, Str ''Asia''),
            (Str ''AAA'', 2020, Fin 10, Fin 0, Str ''Asia'')]
   \<and> clean_then_transform pf fm main_ex meta_ex pop_ex
     = transform_data fm main_ex meta_ex pop_ex"
  by (simp add: run_ex out_ex_def clean_then_transform_def clean_ex and_then_simps)

subsection \<open>C5: the window of years\<close>

text \<open>
  C5: the export holds exactly the rows of the long GDP table whose year lies in the
  closed range from 2010 to 2020, identified by the entity columns and the year: every
  such row is in the export, and every row of the export has its year in the range,
  so a row of 2009 is excluded and rows of 2010 and 2020 are included.
\<close>

theorem final_year_window:
  assumes "transform_data fm main_clean meta_clean pop_clean = Inr final"
    and "gdp_long main_clean = Inr g"
  shows "ident ` set final = ident ` {r \<in> set g. 2010 \<le> year r \<and> year r \<le> 2020}
       \<and> (\<forall>r \<in> set final. 2010 \<le> year r \<and> year r \<le> 2020)"
proof -
  from assms(1) obtain c where c: "change_table fm main_clean pop_clean = Inr c"
    and final: "final = map round_row
        (filter (\<lambda>r. between 2010 2020 (year r)) (sort_name_year (add_continent c)))"
    by (auto simp: transform_data_def and_then_Inr_iff Let_def)
  have "ident ` set final
        = ident ` {r \<in> set (add_continent c). between 2010 2020 (year r)}"
    unfolding final by (auto simp: ident_round sort_name_year_def image_iff)
  also have "\<dots> = {k \<in> ident ` set (add_continent c). between 2010 2020 (snd (snd (snd (snd k))))}"
    by (auto simp: ident_def)
  also have "ident ` set (add_continent c) = ident ` set g"
    using add_continent_ident [of c] change_table_ident [OF c assms(2)]
    by (metis set_map)
  also have "{k \<in> ident ` set g. between 2010 2020 (snd (snd (snd (snd k))))}
        = ident ` {r \<in> set g. 2010 \<le> year r \<and> year r \<le> 2020}"
    by (auto simp: ident_def between_def)
  finally have a: "ident ` set final = ident ` {r \<in> set g. 2010 \<le> year r \<and> year r \<le> 2020}" .
  have b: "\<forall>r \<in> set final. 2010 \<le> year r \<and> year r \<le> 2020"
    unfolding final by (auto simp: round_row_fields between_def)
  from a b show ?thesis by blast
qed

theorem final_year_window_witness:
  "transform_data Ffill main_edge meta_ex pop_edge
     = Inr [out_edge 2010 20 10 (Fin 1), out_edge 2020 30 10 (Fin (1 / 2))]
   \<and> gdp_long main_edge
     = Inr [gdp_edge 2009 10, gdp_edge 2010 20, gdp_edge 2020 30, gdp_edge 2021 40]
   \<and> ident ` set [out_edge 2010 20 10 (Fin 1), out_edge 2020 30 10 (Fin (1 / 2))]
     = ident ` {r \<in> set [gdp_edge 2009 10, gdp_edge 2010 20, gdp_edge 2020 30, gdp_edge 2021 40].
                 2010 \<le> year r \<and> year r \<le> 2020}
   \<and> year (out_edge 2010 20 10 (Fin 1)) \<noteq> 2009"
proof -
  have r: "transform_data Ffill main_edge meta_ex pop_edge
     = Inr [out_edge 2010 20 10 (Fin 1), out_edge 2020 30 10 (Fin (1 / 2))]"
    by (rule run_edge)
  have g: "gdp_long main_edge
     = Inr [gdp_edge 2009 10, gdp_edge 2010 20, gdp_edge 2020 30, gdp_edge 2021 40]"
    by (rule gdp_long_edge)
  from final_year_window [OF r g] show ?thesis
    using r g by simp
qed

subsection \<open>C6: the continent\<close>

text \<open>
  C6: the continent of every row of the export is the region looked up in the fixed
  table; Sub-Saharan Africa gives Africa; a region that is no key of the table, and a
  missing region, give a missing continent. The lookup is a total function, so it
  raises nothing.
\<close>

theorem continent_lookup:
  assumes "transform_data fm main_clean meta_clean pop_clean = Inr final"
  shows "(\<forall>r \<in> set final. continent r = map_continent (region r))
       \<and> map_continent (Str ''Sub-Saharan Africa'') = Str ''Africa''
       \<and> (\<forall>s. s \<notin> fst ` set continent_map \<longrightarrow> map_continent (Str s) = Num NaN)
       \<and> (\<forall>x. map_continent (Num x) = Num NaN)"
proof -
  from assms obtain c where
    final: "final = map round_row
        (filter (\<lambda>r. between 2010 2020 (year r)) (sort_name_year (add_continent c)))"
    by (auto simp: transform_data_def and_then_Inr_iff Let_def)
  have a: "\<forall>r \<in> set final. continent r = map_continent (region r)"
    unfolding final by (auto simp: round_row_fields sort_name_year_def add_continent_region)
  have b: "map_continent (Str ''Sub-Saharan Africa'') = Str ''Africa''"
    by (simp add: map_continent_def continent_map_def)
  have c: "\<forall>s. s \<notin> fst ` set continent_map \<longrightarrow> map_continent (Str s) = Num NaN"
  proof (intro allI impI)
    fix s
    assume "s \<notin> fst ` set continent_map"
    then have "map_of continent_map s = None"
      by (simp add: map_of_eq_None_iff)
    then show "map_continent (Str s) = Num NaN"
      by (simp add: map_continent_def)
  qed
  have d: "\<forall>x. map_continent (Num x) = Num NaN"
    by (simp add: map_continent_def)
  from a b c d show ?thesis by blast
qed

theorem continent_lookup_witness:
  "transform_data NoFill main_edge meta_ex pop_edge
     = Inr [out_edge 2010 20 10 (Fin 1), out_edge 2020 30 10 (Fin (1 / 2))]
   \<and> continent (out_edge 2010 20 10 (Fin 1)) = map_continent (Str ''Sub-Saharan Africa'')
   \<and> ''Antarctica'' \<notin> fst ` set continent_map
   \<and> map_continent (Str ''Antarctica'') = Num NaN"
proof -
  have r: "transform_data NoFill main_edge meta_ex pop_edge
     = Inr [out_edge 2010 20 10 (Fin 1), out_edge 2020 30 10 (Fin (1 / 2))]"
    by (rule run_edge)
  have n: "''Antarctica'' \<notin> fst ` set continent_map"
    by (simp add: continent_map_def)
  note inst = continent_lookup [OF r]
  from inst have "continent (out_edge 2010 20 10 (Fin 1))
      = map_continent (region (out_edge 2010 20 10 (Fin 1)))"
    by simp
  then have a: "continent (out_edge 2010 20 10 (Fin 1))
      = map_continent (Str ''Sub-Saharan Africa'')"
    by (simp add: out_edge_def)
  from inst n have b: "map_continent (Str ''Antarctica'') = Num NaN"
    by blast
  show ?thesis
    by (rule conjI [OF r conjI [OF a conjI [OF n b]]])
qed

subsection \<open>C7 and C8: the population table is not cleaned\<close>

text \<open>
  C7: the claim that the ratio never raises is checked at the main table of the
  scenario and a population table whose cell of 2019 is the placeholder \<^verbatim>\<open>".."\<close>.
  The cleaning passes the population table on as it is, and the division of the
  transform raises TypeError.
\<close>

theorem ratio_raises_on_text:
  "transform_data fm main_ex meta_ex pop_dots = Inl TypeError
   \<and> clean_then_transform pf fm main_ex meta_ex pop_dots = Inl TypeError"
  by (simp add: run_dots clean_then_transform_def clean_dots and_then_simps)

text \<open>
  C8: the claim that the cleaning replaces the placeholders in all three tables is
  checked at the same tables. The cleaning returns the metadata and the population
  table unchanged; the placeholder is still in the population table, where the
  replacement of the main table would have put the missing-value marker.
\<close>

theorem clean_leaves_population:
  "clean_data pf main_ex meta_ex pop_dots = Inr (main_ex, meta_ex, pop_dots)
   \<and> Str ''..'' \<in> set (concat (rows pop_dots))
   \<and> Str ''..'' \<notin> set (concat (rows (replace_sentinels pop_dots)))"
proof -
  have "Str ''..'' \<in> set (concat (rows pop_dots))
      \<and> Str ''..'' \<notin> set (concat (rows (replace_sentinels pop_dots)))"
    by (simp add: pop_dots_def replace_sentinels_def replace_sentinel_def sentinels_def)
  then show ?thesis
    by (simp add: clean_dots)
qed

subsection \<open>C9: the rows of the countries table\<close>

text \<open>
  C9, as stated, fails: a main table with two rows of the code AAA that differ in the
  name gives an export from which two rows of the countries table with the code AAA
  are built.
\<close>

theorem countries_code_counterexample:
  "map_sum id (map fst) (map_sum id countries_df (transform_data Ffill main_two meta_ex pop_ex))
     = Inr [Str ''AAA'', Str ''AAA'']"
  by (simp add: transform_defs row_defs main_two_def pop_ex_def countries_df_def
      drop_duplicates_def)

text \<open>
  C9, amended: the rows built for the countries table are the distinct tuples
  (code, name, region, income group) of the export, each once; every code occurs at
  most once among them when all rows of the export with one code agree on name,
  region and income group.
\<close>

theorem countries_distinct:
  "distinct (countries_df final_df)
   \<and> set (countries_df final_df) = entity_attrs ` set final_df
   \<and> ((\<forall>r \<in> set final_df. \<forall>r' \<in> set final_df. country_code r = country_code r' \<longrightarrow>
          country_name r = country_name r' \<and> region r = region r'
          \<and> incomegroup r = incomegroup r')
        \<longrightarrow> distinct (map fst (countries_df final_df)))"
proof -
  have d: "distinct (countries_df final_df)"
    by (simp add: countries_df_def drop_duplicates_def distinct_drop_duplicates_from)
  have s: "set (countries_df final_df)
       = (\<lambda>r. (country_code r, country_name r, region r, incomegroup r)) ` set final_df"
    by (simp add: countries_df_def drop_duplicates_def set_drop_duplicates_from)
  have e: "entity_attrs = (\<lambda>r::out_row. (country_code r, country_name r, region r, incomegroup r))"
    by (simp add: fun_eq_iff entity_attrs_def)
  have "distinct (map fst (countries_df final_df))"
    if agree: "\<forall>r \<in> set final_df. \<forall>r' \<in> set final_df. country_code r = country_code r' \<longrightarrow>
          country_name r = country_name r' \<and> region r = region r'
          \<and> incomegroup r = incomegroup r'"
  proof -
    have "inj_on fst (set (countries_df final_df))"
    proof (rule inj_onI)
      fix a b
      assume a: "a \<in> set (countries_df final_df)" and b: "b \<in> set (countries_df final_df)"
        and eq: "fst a = fst b"
      from a s obtain r where r: "r \<in> set final_df"
        "a = (country_code r, country_name r, region r, incomegroup r)"
        by blast
      from b s obtain r' where r': "r' \<in> set final_df"
        "b = (country_code r', country_name r', region r', incomegroup r')"
        by blast
      from eq r r' have "country_code r = country_code r'"
        by simp
      with agree r(1) r'(1) have "country_name r = country_name r' \<and> region r = region r'
          \<and> incomegroup r = incomegroup r'"
        by blast
      with \<open>country_code r = country_code r'\<close> r(2) r'(2) show "a = b"
        by simp
    qed
    with d show ?thesis by (simp add: distinct_map)
  qed
  moreover have "set (countries_df final_df) = entity_attrs ` set final_df"
    unfolding s e ..
  ultimately show ?thesis using d by blast
qed

theorem countries_distinct_witness:
  "country_code (out_ex 2019 100 10 NaN) = country_code (out_ex 2020 110 11 (Fin 0))
   \<and> country_name (out_ex 2019 100 10 NaN) = country_name (out_ex 2020 110 11 (Fin 0))
   \<and> distinct (map fst (countries_df [out_ex 2019 100 10 NaN, out_ex 2020 110 11 (Fin 0)]))
   \<and> distinct (countries_df [out_ex 2019 100 10 NaN, out_ex 2020 110 11 (Fin 0)])"
proof -
  have c: "country_code (out_ex 2019 100 10 NaN) = country_code (out_ex 2020 110 11 (Fin 0))"
    and n: "country_name (out_ex 2019 100 10 NaN) = country_name (out_ex 2020 110 11 (Fin 0))"
    and r: "region (out_ex 2019 100 10 NaN) = region (out_ex 2020 110 11 (Fin 0))"
    and i: "incomegroup (out_ex 2019 100 10 NaN) = incomegroup (out_ex 2020 110 11 (Fin 0))"
    by (simp_all add: out_ex_def)
  have agree: "\<forall>r \<in> set [out_ex 2019 100 10 NaN, out_ex 2020 110 11 (Fin 0)].
      \<forall>r' \<in> set [out_ex 2019 100 10 NaN, out_ex 2020 110 11 (Fin 0)].
        country_code r = country_code r' \<longrightarrow>
          country_name r = country_name r' \<and> region r = region r'
          \<and> incomegroup r = incomegroup r'"
    using c n r i by simp
  note inst = countries_distinct [of "[out_ex 2019 100 10 NaN, out_ex 2020 110 11 (Fin 0)]"]
  from inst agree
  have d: "distinct (map fst (countries_df [out_ex 2019 100 10 NaN, out_ex 2020 110 11 (Fin 0)]))"
    by blast
  from inst
  have e: "distinct (countries_df [out_ex 2019 100 10 NaN, out_ex 2020 110 11 (Fin 0)])"
    by blast
  show ?thesis
    by (rule conjI [OF c conjI [OF n conjI [OF d e]]])
qed

subsection \<open>C10: the year columns of the population table\<close>

text \<open>
  C10: the population table is unpivoted on the year columns of the main table. Year
  columns that only the population table has do not change the result of the
  transform: dropping them all gives the same result. When the main table has a year
  column that the population table does not have, the transform raises KeyError and
  produces no output.
\<close>

theorem population_year_columns:
  "transform_data fm main_clean meta_clean
       (drop_columns (\<lambda>c. isdigit c \<and> c \<notin> set (columns main_clean)) pop_clean)
     = transform_data fm main_clean meta_clean pop_clean
   \<and> (y \<in> set (columns main_clean) \<and> isdigit y \<and> y \<notin> set (columns pop_clean)
        \<longrightarrow> transform_data fm main_clean meta_clean pop_clean = Inl KeyError)"
proof
  have "pop_long main_clean
          (drop_columns (\<lambda>c. isdigit c \<and> c \<notin> set (columns main_clean)) pop_clean)
        = pop_long main_clean pop_clean"
    unfolding pop_long_def
    by (rule melt_pop_drop_columns) (auto simp: value_vars_of_def not_isdigit_ids)
  then show "transform_data fm main_clean meta_clean
       (drop_columns (\<lambda>c. isdigit c \<and> c \<notin> set (columns main_clean)) pop_clean)
     = transform_data fm main_clean meta_clean pop_clean"
    by (simp add: transform_data_def change_table_def merged_table_def)
next
  show "y \<in> set (columns main_clean) \<and> isdigit y \<and> y \<notin> set (columns pop_clean)
        \<longrightarrow> transform_data fm main_clean meta_clean pop_clean = Inl KeyError"
  proof
    assume y: "y \<in> set (columns main_clean) \<and> isdigit y \<and> y \<notin> set (columns pop_clean)"
    then have "y \<in> set (value_vars_of main_clean)"
      by (simp add: value_vars_of_def)
    with y have p: "pop_long main_clean pop_clean = Inl KeyError"
      by (auto simp: pop_long_def melt_pop_def list_all_iff)
    from melt_gdp_cases [of main_clean "value_vars_of main_clean"]
    show "transform_data fm main_clean meta_clean pop_clean = Inl KeyError"
      by (auto simp: transform_data_def change_table_def merged_table_def gdp_long_def p
          and_then_simps)
  qed
qed

theorem population_year_columns_witness:
  "''2020'' \<in> set (columns main_ex) \<and> isdigit ''2020'' \<and> ''2020'' \<notin> set (columns pop_short)
   \<and> transform_data Ffill main_ex meta_ex pop_short = Inl KeyError
   \<and> drop_columns (\<lambda>c. isdigit c \<and> c \<notin> set (columns main_ex)) pop_wide = pop_ex
   \<and> transform_data Ffill main_ex meta_ex pop_wide = transform_data Ffill main_ex meta_ex pop_ex"
proof -
  have h: "''2020'' \<in> set (columns main_ex) \<and> isdigit ''2020''
      \<and> ''2020'' \<notin> set (columns pop_short)"
    by (simp add: main_ex_def pop_short_def isdigit_def)
  have d: "drop_columns (\<lambda>c. isdigit c \<and> c \<notin> set (columns main_ex)) pop_wide = pop_ex"
    by (simp add: drop_columns_def main_ex_def pop_wide_def pop_ex_def isdigit_def)
  from population_year_columns [of Ffill main_ex meta_ex pop_short "''2020''"] h
  have e: "transform_data Ffill main_ex meta_ex pop_short = Inl KeyError"
    by blast
  from population_year_columns [of Ffill main_ex meta_ex pop_wide]
  have "transform_data Ffill main_ex meta_ex pop_wide = transform_data Ffill main_ex meta_ex pop_ex"
    unfolding d by simp
  with h d e show ?thesis by simp
qed

end
